theory Spec2Isabelle
  imports Main "HOL-Library.AList" "HOL-Library.Sublist"
begin

section \<open>Paths\<close>

text \<open>
  A path is the list of its components: \<open>Path(r"E:\md") / "a.md"\<close> is
  \<open>[''E:'', ''md'', ''a.md'']\<close>. The empty list is the root of the name space (the
  working directory for the relative \<open>temp_html\<close>); it always exists and is a directory.
\<close>

type_synonym path = "string list"

definition path_name :: "path \<Rightarrow> string" where
  "path_name p = (if p = [] then [] else last p)"

definition parent :: "path \<Rightarrow> path" where
  "parent p = butlast p"

text \<open>\<open>str.rfind\<close>: the last index of a character, \<open>None\<close> for Python's \<open>-1\<close>.\<close>

fun rfind_from :: "char \<Rightarrow> nat \<Rightarrow> string \<Rightarrow> nat option" where
  "rfind_from c i [] = None"
| "rfind_from c i (x # xs) =
     (case rfind_from c (Suc i) xs of
        Some j \<Rightarrow> Some j
      | None \<Rightarrow> if x = c then Some i else None)"

definition rfind :: "string \<Rightarrow> char \<Rightarrow> nat option" where
  "rfind s c = rfind_from c 0 s"

text \<open>
  \<open>PurePath.stem\<close>: the name without its last suffix; a dot at index 0 or at the
  end of the name does not start a suffix.
\<close>

definition stem :: "path \<Rightarrow> string" where
  "stem p =
     (let n = path_name p in
      case rfind n CHR ''.'' of
        None \<Rightarrow> n
      | Some i \<Rightarrow> if 0 < i \<and> i < length n - 1 then take i n else n)"

text \<open>
  The pattern \<open>'*.md'\<close> of \<open>glob\<close>: the name ends with \<open>.md\<close>, compared as
  the pattern is written. A name that is only \<open>.md\<close> matches too.
\<close>

definition md_match :: "string \<Rightarrow> bool" where
  "md_match n = (take 3 (rev n) = ''dm.'')"

section \<open>The file system\<close>

text \<open>
  The file system is an association list from paths to nodes; its order is the order in
  which a directory is listed. A file holds its bytes. There are no permissions, locks or
  links, so an operation fails only for the shape of the tree: a missing path, a file
  where a directory is needed, a directory where a file is needed. The errors carry the
  POSIX names; Windows raises \<open>PermissionError\<close> where POSIX raises
  \<open>IsADirectoryError\<close>, and both are caught by \<open>except Exception\<close>.
\<close>

datatype node = File string | Dir

type_synonym filesystem = "(path \<times> node) list"

datatype error =
    FileNotFoundError string
  | FileExistsError
  | IsADirectoryError
  | NotADirectoryError
  | LibraryError string
  | PdfEmptyError

definition lookup :: "filesystem \<Rightarrow> path \<Rightarrow> node option" where
  "lookup fs p = map_of fs p"

definition path_exists :: "filesystem \<Rightarrow> path \<Rightarrow> bool" where
  "path_exists fs p = (p = [] \<or> lookup fs p \<noteq> None)"

definition is_dir :: "filesystem \<Rightarrow> path \<Rightarrow> bool" where
  "is_dir fs p = (p = [] \<or> lookup fs p = Some Dir)"

text \<open>\<open>Path.mkdir(exist_ok=True)\<close>.\<close>

definition mkdir :: "path \<Rightarrow> filesystem \<Rightarrow> error + filesystem" where
  "mkdir p fs =
     (if is_dir fs p then Inr fs
      else if path_exists fs p then Inl FileExistsError
      else if is_dir fs (parent p) then Inr (fs @ [(p, Dir)])
      else if path_exists fs (parent p) then Inl NotADirectoryError
      else Inl (FileNotFoundError ''No such file or directory''))"

text \<open>\<open>Path.mkdir(parents=True, exist_ok=True)\<close>: missing ancestors are created first.\<close>

function mkdir_parents :: "path \<Rightarrow> filesystem \<Rightarrow> error + filesystem" where
  "mkdir_parents p fs =
     (if is_dir fs p then Inr fs
      else if path_exists fs p then Inl FileExistsError
      else if is_dir fs (parent p) then Inr (fs @ [(p, Dir)])
      else if path_exists fs (parent p) then Inl NotADirectoryError
      else (case mkdir_parents (parent p) fs of
              Inl e \<Rightarrow> Inl e
            | Inr fs' \<Rightarrow> mkdir p fs'))"
  by pat_completeness auto
termination
  by (relation "measure (\<lambda>(p, fs). length p)") (auto simp: is_dir_def parent_def)

declare mkdir_parents.simps [simp del]

text \<open>\<open>open(p, 'w')\<close> followed by \<open>f.write(text)\<close>: the file is created or truncated.\<close>

definition open_write :: "path \<Rightarrow> string \<Rightarrow> filesystem \<Rightarrow> error + filesystem" where
  "open_write p text fs =
     (if \<not> is_dir fs (parent p) then Inl (FileNotFoundError ''No such file or directory'')
      else if lookup fs p = Some Dir then Inl IsADirectoryError
      else Inr (AList.update p (File text) fs))"

text \<open>\<open>Path.unlink()\<close>: removes a file; raises on a directory and on a missing path.\<close>

definition unlink :: "path \<Rightarrow> filesystem \<Rightarrow> error + filesystem" where
  "unlink p fs =
     (case lookup fs p of
        None \<Rightarrow> Inl (FileNotFoundError ''No such file or directory'')
      | Some Dir \<Rightarrow> Inl IsADirectoryError
      | Some (File b) \<Rightarrow> Inr (AList.delete p fs))"

text \<open>\<open>shutil.rmtree(p)\<close>: removes the directory and everything below it.\<close>

definition rmtree :: "path \<Rightarrow> filesystem \<Rightarrow> error + filesystem" where
  "rmtree p fs =
     (case lookup fs p of
        None \<Rightarrow> Inl (FileNotFoundError ''No such file or directory'')
      | Some (File b) \<Rightarrow> Inl NotADirectoryError
      | Some Dir \<Rightarrow> Inr (filter (\<lambda>(q, n). \<not> prefix p q) fs))"

text \<open>
  \<open>list(d.glob('*.md'))\<close>: the entries directly below \<open>d\<close> whose name matches, each
  once, in the order of the directory listing. Directories that match are listed too.
\<close>

definition glob_md :: "filesystem \<Rightarrow> path \<Rightarrow> path list" where
  "glob_md fs d =
     remdups (filter (\<lambda>p. p \<noteq> [] \<and> parent p = d \<and> md_match (path_name p)) (map fst fs))"

section \<open>Output, logging and the external libraries\<close>

datatype option_value = Opt_str string | Opt_none | Opt_pairs "(string \<times> string) list"

type_synonym options = "(string \<times> option_value) list"

text \<open>
  What a run prints, logs and asks of the outside world, in order. The messages of the
  source are not ASCII, so each message is a constructor that carries the values the
  source formats into it; the comment gives the line of the source.
\<close>

datatype event =
    Print_engine_missing            \<comment> \<open>line 32: print, wkhtmltopdf not found, install it\<close>
  | Print_download_url string       \<comment> \<open>line 33: print, download address\<close>
  | Log_md_error path error         \<comment> \<open>line 128: logger.error, md_file and str(e)\<close>
  | Log_converting string           \<comment> \<open>line 141: logger.info, md_file.name\<close>
  | Log_converted path              \<comment> \<open>line 158: logger.info, pdf_file\<close>
  | Log_failed error                \<comment> \<open>line 166: logger.error, str(e) only\<close>
  | Print_no_input_dir path         \<comment> \<open>line 180\<close>
  | Print_no_md_files path          \<comment> \<open>line 185\<close>
  | Print_found nat                 \<comment> \<open>line 188\<close>
  | Print_done                      \<comment> \<open>line 198\<close>
  | Print_success nat               \<comment> \<open>line 199\<close>
  | Print_fail nat                  \<comment> \<open>line 200\<close>
  | Print_saved_to path             \<comment> \<open>line 201\<close>
  | Print_top_error error           \<comment> \<open>line 215\<close>
  | Input_prompt                    \<comment> \<open>lines 213 and 216\<close>
  | Read_call path                  \<comment> \<open>line 58: open(md_file, 'r')\<close>
  | Markdown_call string "string list"  \<comment> \<open>line 72: markdown.markdown\<close>
  | Write_call path                 \<comment> \<open>line 147: open(temp_html_file, 'w')\<close>
  | From_file_call path path        \<comment> \<open>line 151: pdfkit.from_file\<close>

text \<open>
  The libraries and the engine are not part of the repository; they are parameters.
  \<^item> \<open>decode\<close>: \<open>f.read()\<close> under \<open>encoding='utf-8'\<close>, which raises on bytes that
    are not UTF-8;
  \<^item> \<open>markdown\<close>: \<open>markdown.markdown(text, extensions, output_format)\<close>;
  \<^item> \<open>from_file\<close>: \<open>pdfkit.from_file(input, output, options, configuration)\<close>. It
    sees the whole file system; it may raise, and it may write bytes to its output path
    (\<open>Some bytes\<close>) or leave that path as it is (\<open>None\<close>). It changes no other path;
  \<^item> \<open>dir_st_size\<close>: the \<open>st_size\<close> that \<open>stat\<close> reports for a directory.
\<close>

record externals =
  decode :: "string \<Rightarrow> error + string"
  markdown :: "string \<Rightarrow> string list \<Rightarrow> string \<Rightarrow> error + string"
  from_file :: "path \<Rightarrow> path \<Rightarrow> options \<Rightarrow> path \<Rightarrow> filesystem \<Rightarrow> error option \<times> string option"
  dir_st_size :: nat

text \<open>A call returns or raises, leaves a file system, and adds events to the trace.\<close>

type_synonym 'a io = "(error + 'a) \<times> filesystem \<times> event list"

definition read_text :: "externals \<Rightarrow> path \<Rightarrow> filesystem \<Rightarrow> error + string" where
  "read_text X p fs =
     (case lookup fs p of
        None \<Rightarrow> Inl (FileNotFoundError ''No such file or directory'')
      | Some Dir \<Rightarrow> Inl IsADirectoryError
      | Some (File b) \<Rightarrow> decode X b)"

definition st_size :: "externals \<Rightarrow> filesystem \<Rightarrow> path \<Rightarrow> nat" where
  "st_size X fs p =
     (case lookup fs p of
        Some (File b) \<Rightarrow> length b
      | Some Dir \<Rightarrow> dir_st_size X
      | None \<Rightarrow> 0)"

text \<open>
  Line 161 calls \<open>stat\<close> only after \<open>exists\<close> has returned true, so the last case of
  \<open>st_size\<close> is never used.
\<close>

definition engine_effect :: "path \<Rightarrow> string option \<Rightarrow> filesystem \<Rightarrow> filesystem" where
  "engine_effect p written fs =
     (case written of None \<Rightarrow> fs | Some b \<Rightarrow> AList.update p (File b) fs)"

section \<open>The converter\<close>

record converter =
  input_dir :: path
  output_dir :: path
  temp_dir :: path
  wkhtmltopdf_path :: path
  config :: path
  options :: options

definition the_converter :: converter where
  "the_converter =
     \<lparr> input_dir = [''E:'', ''md''],
       output_dir = [''E:'', ''pdf''],
       temp_dir = [''temp_html''],
       wkhtmltopdf_path = [''C:'', ''Program Files'', ''wkhtmltopdf'', ''bin'', ''wkhtmltopdf.exe''],
       config = [''C:'', ''Program Files'', ''wkhtmltopdf'', ''bin'', ''wkhtmltopdf.exe''],
       options =
         [(''encoding'', Opt_str ''UTF-8''),
          (''page-size'', Opt_str ''A4''),
          (''margin-top'', Opt_str ''20mm''),
          (''margin-right'', Opt_str ''20mm''),
          (''margin-bottom'', Opt_str ''20mm''),
          (''margin-left'', Opt_str ''20mm''),
          (''enable-local-file-access'', Opt_none),
          (''custom-header'', Opt_pairs [(''Accept-Encoding'', ''gzip'')])] \<rparr>"

definition download_url :: string where
  "download_url = ''https://wkhtmltopdf.org/downloads.html''"

text \<open>
  \<open>__init__\<close>: the two directories are created first, then the engine is looked for.
\<close>

definition init :: "filesystem \<Rightarrow> converter io" where
  "init fs =
     (let self = the_converter in
      case mkdir_parents (output_dir self) fs of
        Inl e \<Rightarrow> (Inl e, fs, [])
      | Inr fs1 \<Rightarrow>
          (case mkdir (temp_dir self) fs1 of
             Inl e \<Rightarrow> (Inl e, fs1, [])
           | Inr fs2 \<Rightarrow>
               if \<not> path_exists fs2 (wkhtmltopdf_path self)
               then (Inl (FileNotFoundError ''wkhtmltopdf not found''), fs2,
                     [Print_engine_missing, Print_download_url download_url])
               else (Inr self, fs2, [])))"

subsection \<open>Markdown to HTML\<close>

definition extensions :: "string list" where
  "extensions =
     [''markdown.extensions.tables'',
      ''markdown.extensions.fenced_code'',
      ''markdown.extensions.codehilite'',
      ''markdown.extensions.toc'',
      ''markdown.extensions.meta'',
      ''markdown.extensions.nl2br'']"

text \<open>The f-string of lines 79 to 124, before and after \<open>{html_content}\<close>.\<close>

definition template_head :: string where
  \<open>template_head = concat [
     ''\<newline>'',
     ''            <!DOCTYPE html>\<newline>'',
     ''            <html>\<newline>'',
     ''            <head>\<newline>'',
     ''                <meta charset="utf-8">\<newline>'',
     ''                <style>\<newline>'',
     ''                    body {\<newline>'',
     ''                        font-family: "Microsoft YaHei", Arial, sans-serif;\<newline>'',
     ''                        line-height: 1.6;\<newline>'',
     ''                        padding: 20px;\<newline>'',
     ''                        max-width: 21cm;\<newline>'',
     ''                        margin: 0 auto;\<newline>'',
     ''                    }\<newline>'',
     ''                    img {\<newline>'',
     ''                        max-width: 100%;\<newline>'',
     ''                        height: auto;\<newline>'',
     ''                    }\<newline>'',
     ''                    pre {\<newline>'',
     ''                        background-color: #f5f5f5;\<newline>'',
     ''                        padding: 10px;\<newline>'',
     ''                        border-radius: 5px;\<newline>'',
     ''                        overflow-x: auto;\<newline>'',
     ''                    }\<newline>'',
     ''                    code {\<newline>'',
     ''                        font-family: Consolas, Monaco, 'Courier New', monospace;\<newline>'',
     ''                    }\<newline>'',
     ''                    table {\<newline>'',
     ''                        border-collapse: collapse;\<newline>'',
     ''                        width: 100%;\<newline>'',
     ''                        margin: 15px 0;\<newline>'',
     ''                    }\<newline>'',
     ''                    th, td {\<newline>'',
     ''                        border: 1px solid #ddd;\<newline>'',
     ''                        padding: 8px;\<newline>'',
     ''                        text-align: left;\<newline>'',
     ''                    }\<newline>'',
     ''                    th {\<newline>'',
     ''                        background-color: #f5f5f5;\<newline>'',
     ''                    }\<newline>'',
     ''                </style>\<newline>'',
     ''            </head>\<newline>'',
     ''            <body>\<newline>'',
     ''                '']\<close>

definition template_tail :: string where
  \<open>template_tail = concat [
     ''\<newline>'',
     ''            </body>\<newline>'',
     ''            </html>\<newline>'',
     ''            '']\<close>

definition html_template :: "string \<Rightarrow> string" where
  "html_template html_content = template_head @ html_content @ template_tail"

definition convert_md_to_html :: "externals \<Rightarrow> path \<Rightarrow> filesystem \<Rightarrow> string io" where
  "convert_md_to_html X md_file fs =
     (case read_text X md_file fs of
        Inl e \<Rightarrow> (Inl e, fs, [Read_call md_file, Log_md_error md_file e])
      | Inr md_content \<Rightarrow>
          (case markdown X md_content extensions ''html5'' of
             Inl e \<Rightarrow>
               (Inl e, fs,
                [Read_call md_file, Markdown_call md_content extensions,
                 Log_md_error md_file e])
           | Inr html_content \<Rightarrow>
               (Inr (html_template html_content), fs,
                [Read_call md_file, Markdown_call md_content extensions])))"

subsection \<open>One file\<close>

definition pdf_file :: "converter \<Rightarrow> path \<Rightarrow> path" where
  "pdf_file self md_file = output_dir self @ [stem md_file @ ''.pdf'']"

definition temp_html_file :: "converter \<Rightarrow> path \<Rightarrow> path" where
  "temp_html_file self md_file = temp_dir self @ [stem md_file @ ''.html'']"

text \<open>
  The call of the engine and the check of its output (lines 151 to 164), from a file
  system in which the intermediate file has been written.
\<close>

definition paginate :: "externals \<Rightarrow> converter \<Rightarrow> path \<Rightarrow> filesystem \<Rightarrow> bool io" where
  "paginate X self md_file fs =
     (let pdf = pdf_file self md_file; temp = temp_html_file self md_file in
      case from_file X temp pdf (options self) (config self) fs of
        (Some e, written) \<Rightarrow>
          (Inl e, engine_effect pdf written fs, [From_file_call temp pdf])
      | (None, written) \<Rightarrow>
          (let fs' = engine_effect pdf written fs in
           if \<not> path_exists fs' pdf \<or> st_size X fs' pdf = 0
           then (Inl PdfEmptyError, fs', [From_file_call temp pdf, Log_converted pdf])
           else (Inr True, fs', [From_file_call temp pdf, Log_converted pdf])))"

text \<open>The body of the \<open>try\<close> of \<open>convert_file\<close> (lines 137 to 164).\<close>

definition convert_file_try :: "externals \<Rightarrow> converter \<Rightarrow> path \<Rightarrow> filesystem \<Rightarrow> bool io" where
  "convert_file_try X self md_file fs =
     (let temp = temp_html_file self md_file in
      case convert_md_to_html X md_file fs of
        (Inl e, fs1, t1) \<Rightarrow> (Inl e, fs1, Log_converting (path_name md_file) # t1)
      | (Inr html_content, fs1, t1) \<Rightarrow>
          (case open_write temp html_content fs1 of
             Inl e \<Rightarrow>
               (Inl e, fs1, Log_converting (path_name md_file) # t1 @ [Write_call temp])
           | Inr fs2 \<Rightarrow>
               (case paginate X self md_file fs2 of
                  (r, fs3, t3) \<Rightarrow>
                    (r, fs3,
                     Log_converting (path_name md_file) # t1 @ [Write_call temp] @ t3))))"

text \<open>
  \<open>except Exception\<close> turns an error of the body into \<open>False\<close> after logging it;
  \<open>finally\<close> then unlinks the intermediate file if the path exists. An error raised by
  \<open>unlink\<close> replaces the pending return value.
\<close>

definition convert_file :: "externals \<Rightarrow> converter \<Rightarrow> path \<Rightarrow> filesystem \<Rightarrow> bool io" where
  "convert_file X self md_file fs =
     (let temp = temp_html_file self md_file in
      case convert_file_try X self md_file fs of
        (r, fs1, t1) \<Rightarrow>
          (let ok = (case r of Inl e \<Rightarrow> False | Inr b \<Rightarrow> b);
               t2 = (case r of Inl e \<Rightarrow> t1 @ [Log_failed e] | Inr b \<Rightarrow> t1)
           in if path_exists fs1 temp
              then (case unlink temp fs1 of
                      Inl e \<Rightarrow> (Inl e, fs1, t2)
                    | Inr fs2 \<Rightarrow> (Inr ok, fs2, t2))
              else (Inr ok, fs1, t2)))"

subsection \<open>The batch\<close>

fun convert_loop ::
  "externals \<Rightarrow> converter \<Rightarrow> path list \<Rightarrow> nat \<times> nat \<Rightarrow> filesystem \<Rightarrow> (nat \<times> nat) io" where
  "convert_loop X self [] (success_count, fail_count) fs =
     (Inr (success_count, fail_count), fs, [])"
| "convert_loop X self (md_file # rest) (success_count, fail_count) fs =
     (case convert_file X self md_file fs of
        (Inl e, fs1, t1) \<Rightarrow> (Inl e, fs1, t1)
      | (Inr ok, fs1, t1) \<Rightarrow>
          (case convert_loop X self rest
                  (if ok then (success_count + 1, fail_count)
                   else (success_count, fail_count + 1)) fs1 of
             (r, fs2, t2) \<Rightarrow> (r, fs2, t1 @ t2)))"

text \<open>The body of the \<open>try\<close> of \<open>convert_all\<close> (lines 178 to 201).\<close>

definition convert_all_try :: "externals \<Rightarrow> converter \<Rightarrow> filesystem \<Rightarrow> unit io" where
  "convert_all_try X self fs =
     (if \<not> path_exists fs (input_dir self)
      then (Inr (), fs, [Print_no_input_dir (input_dir self)])
      else
        (let md_files = glob_md fs (input_dir self) in
         if md_files = []
         then (Inr (), fs, [Print_no_md_files (input_dir self)])
         else
           (case convert_loop X self md_files (0, 0) fs of
              (Inl e, fs1, t1) \<Rightarrow> (Inl e, fs1, Print_found (length md_files) # t1)
            | (Inr (success_count, fail_count), fs1, t1) \<Rightarrow>
                (Inr (), fs1,
                 Print_found (length md_files) # t1 @
                 [Print_done, Print_success success_count, Print_fail fail_count,
                  Print_saved_to (output_dir self)]))))"

text \<open>\<open>finally\<close>: the temporary directory is removed if it exists.\<close>

definition convert_all :: "externals \<Rightarrow> converter \<Rightarrow> filesystem \<Rightarrow> unit io" where
  "convert_all X self fs =
     (case convert_all_try X self fs of
        (r, fs1, t1) \<Rightarrow>
          if path_exists fs1 (temp_dir self)
          then (case rmtree (temp_dir self) fs1 of
                  Inl e \<Rightarrow> (Inl e, fs1, t1)
                | Inr fs2 \<Rightarrow> (r, fs2, t1))
          else (r, fs1, t1))"

text \<open>The entry point (lines 209 to 216).\<close>

definition main :: "externals \<Rightarrow> filesystem \<Rightarrow> unit io" where
  "main X fs =
     (case init fs of
        (Inl e, fs1, t1) \<Rightarrow> (Inr (), fs1, t1 @ [Print_top_error e, Input_prompt])
      | (Inr converter, fs1, t1) \<Rightarrow>
          (case convert_all X converter fs1 of
             (Inl e, fs2, t2) \<Rightarrow> (Inr (), fs2, t1 @ t2 @ [Print_top_error e, Input_prompt])
           | (Inr u, fs2, t2) \<Rightarrow> (Inr (), fs2, t1 @ t2 @ [Input_prompt])))"

section \<open>Reading a trace\<close>

text \<open>
  The names logged by line 141, and the numbers printed by lines 199 and 200, in the
  order in which a trace holds them.
\<close>

definition processed :: "event list \<Rightarrow> string list" where
  "processed t = concat (map (\<lambda>e. case e of Log_converting n \<Rightarrow> [n] | _ \<Rightarrow> []) t)"

definition successes :: "event list \<Rightarrow> nat list" where
  "successes t = concat (map (\<lambda>e. case e of Print_success n \<Rightarrow> [n] | _ \<Rightarrow> []) t)"

definition failures :: "event list \<Rightarrow> nat list" where
  "failures t = concat (map (\<lambda>e. case e of Print_fail n \<Rightarrow> [n] | _ \<Rightarrow> []) t)"

section \<open>An engine that depends on its input document only\<close>


section \<open>Concrete libraries and file systems\<close>

text \<open>
  Stand-ins for the libraries, used to run the definitions on concrete inputs: Markdown that
  returns its input, an engine that writes four bytes, one that reports an error and
  writes nothing, and one that returns without writing.
\<close>

definition demo_externals :: externals where
  "demo_externals =
     \<lparr> decode = Inr,
       markdown = (\<lambda>text exts fmt. Inr text),
       from_file = (\<lambda>src dst opts cfg fs. (None, Some ''%PDF'')),
       dir_st_size = 0 \<rparr>"

definition failing_engine :: externals where
  "failing_engine =
     \<lparr> decode = Inr,
       markdown = (\<lambda>text exts fmt. Inr text),
       from_file = (\<lambda>src dst opts cfg fs. (Some (LibraryError ''wkhtmltopdf reported an error''), None)),
       dir_st_size = 0 \<rparr>"

definition silent_engine :: externals where
  "silent_engine =
     \<lparr> decode = Inr,
       markdown = (\<lambda>text exts fmt. Inr text),
       from_file = (\<lambda>src dst opts cfg fs. (None, None)),
       dir_st_size = 0 \<rparr>"

definition a_md :: path where
  "a_md = [''E:'', ''md'', ''a.md'']"

definition ready_fs :: filesystem where
  "ready_fs =
     [([''E:''], Dir), ([''E:'', ''md''], Dir), ([''E:'', ''md'', ''a.md''], File ''# a''),
      ([''E:'', ''pdf''], Dir), ([''temp_html''], Dir)]"


definition no_engine_fs :: filesystem where
  "no_engine_fs = [([''E:''], Dir), ([''E:'', ''md''], Dir), ([''E:'', ''md'', ''a.md''], File ''# a'')]"





definition blocked_fs :: filesystem where
  "blocked_fs =
     [([''C:'', ''Program Files'', ''wkhtmltopdf'', ''bin'', ''wkhtmltopdf.exe''], File ''MZ''),
      ([''E:''], Dir), ([''E:'', ''md''], Dir), ([''E:'', ''md'', ''a.md''], File ''# a''),
      ([''E:'', ''md'', ''b.md''], File ''# b''),
      ([''E:'', ''pdf''], Dir), ([''temp_html''], Dir), ([''temp_html'', ''a.html''], Dir)]"








section \<open>Facts about the file system and the conversion of one file\<close>

lemma lookup_update: "lookup (AList.update k v fs) q = (if q = k then Some v else lookup fs q)"
  by (simp add: lookup_def update_conv')

lemma lookup_delete: "lookup (AList.delete k fs) q = (if q = k then None else lookup fs q)"
  by (simp add: lookup_def delete_conv')

lemma pdf_neq_temp: "pdf_file self m \<noteq> temp_html_file self' m'"
proof
  assume "pdf_file self m = temp_html_file self' m'"
  then have "last (pdf_file self m) = last (temp_html_file self' m')" by simp
  then have "stem m @ ''.pdf'' = stem m' @ ''.html''"
    by (simp add: pdf_file_def temp_html_file_def)
  then have "last (stem m @ ''.pdf'') = last (stem m' @ ''.html'')" by simp
  then show False by simp
qed

lemma temp_nonempty: "temp_html_file self m \<noteq> []"
  by (simp add: temp_html_file_def)

lemma pdf_nonempty: "pdf_file self m \<noteq> []"
  by (simp add: pdf_file_def)

lemma md_to_html_fs: "convert_md_to_html X m fs = (r, fs1, t) \<Longrightarrow> fs1 = fs"
  by (auto simp: convert_md_to_html_def split: sum.splits)

lemma lookup_engine_effect:
  "lookup (engine_effect p w fs) q = (if q = p then (case w of None \<Rightarrow> lookup fs p | Some b \<Rightarrow> Some (File b)) else lookup fs q)"
  by (auto simp: engine_effect_def lookup_update split: option.splits)

lemma paginate_lookup:
  "paginate X self m fs = (r, fs', t) \<Longrightarrow> q \<noteq> pdf_file self m \<Longrightarrow> lookup fs' q = lookup fs q"
  by (auto simp: paginate_def Let_def lookup_engine_effect split: prod.splits option.splits if_splits)

lemma paginate_success:
  "paginate X self m fs = (r, fs', t) \<Longrightarrow>
     (r = Inr True \<longleftrightarrow> fst (from_file X (temp_html_file self m) (pdf_file self m) (options self) (config self) fs) = None
        \<and> path_exists fs' (pdf_file self m) \<and> st_size X fs' (pdf_file self m) \<noteq> 0)"
  by (auto simp: paginate_def Let_def split: prod.splits option.splits if_splits)

lemma paginate_result:
  "paginate X self m fs = (r, fs', t) \<Longrightarrow> r = Inr True \<or> (\<exists>e. r = Inl e)"
  by (auto simp: paginate_def Let_def split: prod.splits option.splits if_splits)

lemma paginate_trace:
  "paginate X self m fs = (r, fs', t) \<Longrightarrow> From_file_call (temp_html_file self m) (pdf_file self m) \<in> set t"
  by (auto simp: paginate_def Let_def split: prod.splits option.splits if_splits)

lemma md_to_html_trace:
  "convert_md_to_html X m fs = (r, fs1, t) \<Longrightarrow> From_file_call a b \<notin> set t"
  by (auto simp: convert_md_to_html_def split: sum.splits)

text \<open>The body of \<open>convert_file\<close> changes two paths at most: the intermediate file and the output.\<close>

lemma try_lookup:
  assumes "convert_file_try X self m fs = (r, fs1, t1)"
      and "q \<noteq> pdf_file self m" and "q \<noteq> temp_html_file self m"
  shows "lookup fs1 q = lookup fs q"
  using assms
  by (auto simp: convert_file_try_def Let_def open_write_def lookup_update
      dest!: md_to_html_fs paginate_lookup split: prod.splits sum.splits if_splits)


lemma try_paginated_temp:
  assumes "convert_file_try X self m fs = (r, fs1, t1)"
      and "From_file_call a b \<in> set t1"
  shows "\<exists>h. lookup fs1 (temp_html_file self m) = Some (File h)"
  using assms pdf_neq_temp[of self m self m]
  by (auto simp: convert_file_try_def Let_def open_write_def lookup_update
      dest!: md_to_html_fs md_to_html_trace paginate_lookup[where q="temp_html_file self m"] split: prod.splits sum.splits if_splits)

lemma lookup_same:
  "lookup fs p = lookup fs' p \<Longrightarrow> path_exists fs p = path_exists fs' p \<and> st_size X fs p = st_size X fs' p"
  by (simp add: path_exists_def st_size_def)

lemma try_result:
  "convert_file_try X self m fs = (r, fs1, t1) \<Longrightarrow> r = Inr True \<or> (\<exists>e. r = Inl e)"
  by (auto simp: convert_file_try_def Let_def dest: paginate_result split: prod.splits sum.splits)

lemma try_success:
  "convert_file_try X self m fs = (Inr True, fs1, t1) \<Longrightarrow>
     path_exists fs1 (pdf_file self m) \<and> st_size X fs1 (pdf_file self m) \<noteq> 0"
  by (auto simp: convert_file_try_def Let_def dest: paginate_success split: prod.splits sum.splits)

lemma convert_file_cleanup:
  assumes "convert_file_try X self m fs = (r1, fs1, t1)"
  shows "convert_file X self m fs =
     (case lookup fs1 (temp_html_file self m) of
        None \<Rightarrow> (Inr (r1 = Inr True), fs1, (case r1 of Inl e \<Rightarrow> t1 @ [Log_failed e] | Inr b \<Rightarrow> t1))
      | Some Dir \<Rightarrow> (Inl IsADirectoryError, fs1, (case r1 of Inl e \<Rightarrow> t1 @ [Log_failed e] | Inr b \<Rightarrow> t1))
      | Some (File h) \<Rightarrow>
          (Inr (r1 = Inr True), AList.delete (temp_html_file self m) fs1,
           (case r1 of Inl e \<Rightarrow> t1 @ [Log_failed e] | Inr b \<Rightarrow> t1)))"
  using assms try_result[OF assms]
  by (auto simp: convert_file_def Let_def unlink_def path_exists_def temp_nonempty
      split: option.splits node.splits sum.splits)

lemmas eval_defs = convert_file_def convert_file_try_def convert_md_to_html_def paginate_def
  read_text_def open_write_def unlink_def engine_effect_def st_size_def path_exists_def is_dir_def
  lookup_def temp_html_file_def pdf_file_def stem_def path_name_def rfind_def parent_def
  the_converter_def a_md_def ready_fs_def blocked_fs_def Let_def








text \<open>The loop of \<open>convert_all\<close>.\<close>

lemma obs_append [simp]:
  "processed (a @ b) = processed a @ processed b"
  "successes (a @ b) = successes a @ successes b"
  "failures (a @ b) = failures a @ failures b"
  by (simp_all add: processed_def successes_def failures_def)

lemma obs_Nil [simp]: "processed [] = []" "successes [] = []" "failures [] = []"
  by (simp_all add: processed_def successes_def failures_def)











text \<open>Directory setup and the constructor.\<close>

lemma lookup_append_new:
  "lookup (fs @ [(p, n)]) q = (case lookup fs q of Some x \<Rightarrow> Some x | None \<Rightarrow> if q = p then Some n else None)"
  by (auto simp: lookup_def map_add_def split: option.splits)

lemma mkdir_lookup:
  assumes "mkdir p fs = Inr fs'"
  shows "is_dir fs' p" and "q \<noteq> p \<Longrightarrow> lookup fs' q = lookup fs q"
  using assms
  by (auto simp: mkdir_def is_dir_def path_exists_def lookup_append_new split: if_splits option.splits)

lemma mkdir_parents_lookup:
  "mkdir_parents p fs = Inr fs' \<Longrightarrow> is_dir fs' p \<and> (\<forall>q. \<not> prefix q p \<longrightarrow> lookup fs' q = lookup fs q)"
proof (induction p fs arbitrary: fs' rule: mkdir_parents.induct)
  case (1 p fs)
  show ?case
  proof (cases "is_dir fs p \<or> path_exists fs p \<or> is_dir fs (parent p) \<or> path_exists fs (parent p)")
    case True
    with "1.prems" show ?thesis
      by (subst (asm) mkdir_parents.simps)
         (auto simp: is_dir_def path_exists_def lookup_append_new split: if_splits option.splits)
  next
    case False
    with "1.prems" obtain fs1 where a: "mkdir_parents (parent p) fs = Inr fs1" and b: "mkdir p fs1 = Inr fs'"
      by (subst (asm) mkdir_parents.simps) (auto split: sum.splits)
    from False a "1.IH"[of fs1] have ih: "\<forall>q. \<not> prefix q (parent p) \<longrightarrow> lookup fs1 q = lookup fs q"
      by auto
    have pre: "\<And>q. \<not> prefix q p \<Longrightarrow> \<not> prefix q (parent p)"
      unfolding parent_def by (meson prefix_order.order_trans prefixeq_butlast)
    from mkdir_lookup[OF b] ih pre show ?thesis
      by (metis prefix_order.order_refl)
  qed
qed

lemma init_cases:
  "init fs =
     (case mkdir_parents [''E:'', ''pdf''] fs of
        Inl e \<Rightarrow> (Inl e, fs, [])
      | Inr fs1 \<Rightarrow>
          (case mkdir [''temp_html''] fs1 of
             Inl e \<Rightarrow> (Inl e, fs1, [])
           | Inr fs2 \<Rightarrow>
               if \<not> path_exists fs (wkhtmltopdf_path the_converter)
               then (Inl (FileNotFoundError ''wkhtmltopdf not found''), fs2,
                     [Print_engine_missing, Print_download_url ''https://wkhtmltopdf.org/downloads.html''])
               else (Inr the_converter, fs2, [])))"
proof -
  have "path_exists fs2 (wkhtmltopdf_path the_converter) = path_exists fs (wkhtmltopdf_path the_converter)"
    if a: "mkdir_parents [''E:'', ''pdf''] fs = Inr fs1" and b: "mkdir [''temp_html''] fs1 = Inr fs2"
    for fs1 fs2
  proof -
    have "lookup fs1 (wkhtmltopdf_path the_converter) = lookup fs (wkhtmltopdf_path the_converter)"
      using mkdir_parents_lookup[OF a] by (simp add: the_converter_def)
    moreover have "lookup fs2 (wkhtmltopdf_path the_converter) = lookup fs1 (wkhtmltopdf_path the_converter)"
      using mkdir_lookup(2)[OF b] by (simp add: the_converter_def)
    ultimately show ?thesis by (simp add: path_exists_def)
  qed
  then show ?thesis
    by (auto simp: init_def Let_def the_converter_def download_url_def split: sum.splits)
qed

lemma init_success:
  assumes "init fs0 = (Inr self, fs, t0)"
  shows "self = the_converter" and "t0 = []" and "lookup fs [''temp_html''] = Some Dir"
    and "path_exists fs0 (wkhtmltopdf_path the_converter)"
    and "\<And>q. q \<noteq> [''temp_html''] \<Longrightarrow> \<not> prefix q [''E:'', ''pdf''] \<Longrightarrow> lookup fs q = lookup fs0 q"
proof -
  from assms obtain fs1 where a: "mkdir_parents [''E:'', ''pdf''] fs0 = Inr fs1"
    and b: "mkdir [''temp_html''] fs1 = Inr fs"
    and c: "path_exists fs0 (wkhtmltopdf_path the_converter)"
    and d: "self = the_converter" "t0 = []"
    unfolding init_cases by (auto split: sum.splits if_splits)
  from d show "self = the_converter" and "t0 = []" by simp_all
  from c show "path_exists fs0 (wkhtmltopdf_path the_converter)" .
  from mkdir_lookup(1)[OF b] show "lookup fs [''temp_html''] = Some Dir"
    by (simp add: is_dir_def)
  show "lookup fs q = lookup fs0 q" if "q \<noteq> [''temp_html'']" "\<not> prefix q [''E:'', ''pdf'']" for q
    using that mkdir_lookup(2)[OF b, of q] mkdir_parents_lookup[OF a] by simp
qed




section \<open>Facts about a second run\<close>



lemma parent_temp [simp]: "parent (temp_html_file self m) = temp_dir self"
  by (simp add: parent_def temp_html_file_def)



lemma convert_file_lookup:
  assumes "convert_file X self m fs = (r, fs', t)"
      and "q \<noteq> pdf_file self m" and "q \<noteq> temp_html_file self m"
  shows "lookup fs' q = lookup fs q"
proof -
  obtain r1 fs1 t1 where tr: "convert_file_try X self m fs = (r1, fs1, t1)"
    by (metis prod_cases3)
  from assms try_lookup[OF tr assms(2,3)] show ?thesis
    by (auto simp: convert_file_cleanup[OF tr] lookup_delete split: option.splits node.splits)
qed

lemma convert_loop_lookup:
  assumes "convert_loop X self ms c fs = (r, fs', t)"
      and "\<forall>m \<in> set ms. q \<noteq> pdf_file self m \<and> q \<noteq> temp_html_file self m"
  shows "lookup fs' q = lookup fs q"
  using assms
proof (induction ms arbitrary: c fs r t)
  case Nil
  then show ?case by (cases c) simp
next
  case (Cons m ms)
  obtain s f where c: "c = (s, f)" by (cases c)
  obtain r1 fs1 t1 where cf: "convert_file X self m fs = (r1, fs1, t1)"
    by (metis prod_cases3)
  from Cons.prems(2) have f1: "lookup fs1 q = lookup fs q"
    using convert_file_lookup[OF cf] by simp
  show ?case
  proof (cases r1)
    case (Inl e)
    with Cons.prems(1) cf c f1 show ?thesis by simp
  next
    case (Inr ok)
    with Cons.prems(1) cf c obtain c' t2 where "convert_loop X self ms c' fs1 = (r, fs', t2)"
      by (auto split: prod.splits if_splits)
    from Cons.IH[OF this] Cons.prems(2) f1 show ?thesis by simp
  qed
qed

lemma is_dir_cong: "lookup fs' p = lookup fs p \<Longrightarrow> is_dir fs' p = is_dir fs p"
  by (simp add: is_dir_def)








lemma parent_pdf [simp]: "parent (pdf_file self m) = output_dir self"
  by (simp add: parent_def pdf_file_def)







lemma lookup_rmtree:
  "lookup (filter (\<lambda>(q, n). \<not> prefix p q) fs) q = (if prefix p q then None else lookup fs q)"
  unfolding lookup_def by (induction fs) auto







lemma convert_all_try_lookup:
  assumes "convert_all_try X self fs = (r, F, t)"
      and "\<forall>m. q \<noteq> pdf_file self m \<and> q \<noteq> temp_html_file self m"
  shows "lookup F q = lookup fs q"
proof -
  obtain rl Fl tl where
    l: "convert_loop X self (glob_md fs (input_dir self)) (0, 0) fs = (rl, Fl, tl)"
    by (metis prod_cases3)
  from assms(2) have "lookup Fl q = lookup fs q"
    using convert_loop_lookup[OF l] by blast
  moreover from assms(1) l have "F = fs \<or> F = Fl"
    by (auto simp: convert_all_try_def Let_def split: if_splits sum.splits)
  ultimately show ?thesis by auto
qed


lemma the_converter_paths:
  "input_dir the_converter = [''E:'', ''md'']"
  "output_dir the_converter = [''E:'', ''pdf'']"
  "temp_dir the_converter = [''temp_html'']"
  "pdf_file the_converter m = [''E:'', ''pdf'', stem m @ ''.pdf'']"
  "temp_html_file the_converter m = [''temp_html'', stem m @ ''.html'']"
  by (simp_all add: the_converter_def pdf_file_def temp_html_file_def)




lemma convert_all_after_init:
  assumes tryA: "convert_all_try X the_converter A0 = (r, F, t)"
      and tA: "lookup A0 [''temp_html''] = Some Dir"
  shows "lookup F [''temp_html''] = Some Dir"
    and "convert_all X the_converter A0 = (r, filter (\<lambda>(q, n). \<not> prefix [''temp_html''] q) F, t)"
proof -
  have "lookup F [''temp_html''] = lookup A0 [''temp_html'']"
    by (rule convert_all_try_lookup[OF tryA]) (simp add: the_converter_paths)
  with tA show F: "lookup F [''temp_html''] = Some Dir" by simp
  then show "convert_all X the_converter A0 =
      (r, filter (\<lambda>(q, n). \<not> prefix [''temp_html''] q) F, t)"
    using tryA by (simp add: convert_all_def rmtree_def path_exists_def the_converter_paths)
qed





section \<open>The intermediate file is gone when \<open>convert_file\<close> is left\<close>

text \<open>
  C2. However the conversion of one file ends, the path of its intermediate HTML file
  holds no file afterwards; and when \<open>convert_file\<close> returns (with \<open>True\<close> or with
  \<open>False\<close>, so also after an error of Markdown or of the engine), nothing at all exists
  at that path. The libraries are arbitrary.
\<close>

theorem convert_file_removes_temp:
  assumes "convert_file X self md_file fs = (r, fs', t)"
  shows "(\<forall>b. lookup fs' (temp_html_file self md_file) \<noteq> Some (File b)) \<and>
         (\<forall>ok. r = Inr ok \<longrightarrow> \<not> path_exists fs' (temp_html_file self md_file))"
  using assms
  by (auto simp: convert_file_def Let_def unlink_def path_exists_def lookup_delete temp_nonempty
      split: prod.splits option.splits node.splits if_splits)

theorem convert_file_removes_temp_witness:
  "convert_file failing_engine the_converter a_md ready_fs =
     (Inr False, ready_fs,
      [Log_converting ''a.md'', Read_call a_md, Markdown_call ''# a'' extensions,
       Write_call [''temp_html'', ''a.html''],
       From_file_call [''temp_html'', ''a.html''] [''E:'', ''pdf'', ''a.pdf''],
       Log_failed (LibraryError ''wkhtmltopdf reported an error'')]) \<and>
   \<not> path_exists ready_fs (temp_html_file the_converter a_md)"
proof -
  have run: "convert_file failing_engine the_converter a_md ready_fs =
     (Inr False, ready_fs,
      [Log_converting ''a.md'', Read_call a_md, Markdown_call ''# a'' extensions,
       Write_call [''temp_html'', ''a.html''],
       From_file_call [''temp_html'', ''a.html''] [''E:'', ''pdf'', ''a.pdf''],
       Log_failed (LibraryError ''wkhtmltopdf reported an error'')])"
    by (simp add: eval_defs failing_engine_def)
  from convert_file_removes_temp [OF run] show ?thesis using run by blast
qed

section \<open>Success means a checked output file\<close>

text \<open>
  C3. If \<open>convert_file\<close> returns \<open>True\<close>, the path \<open>output_dir / (stem + ".pdf")\<close>
  exists and its size is not zero in the file system that \<open>convert_file\<close> leaves.
  Conversely, if the engine was called and, in the file system at the end of the
  \<open>try\<close> block, the output path does not exist or has size zero, \<open>convert_file\<close>
  returns \<open>False\<close>.
\<close>

theorem convert_file_success_checks_output:
  assumes "convert_file_try X self md_file fs = (r1, fs1, t1)"
      and "convert_file X self md_file fs = (r, fs', t)"
  shows "(r = Inr True \<longrightarrow>
            path_exists fs' (pdf_file self md_file) \<and>
            st_size X fs' (pdf_file self md_file) \<noteq> 0 \<and>
            pdf_file self md_file = output_dir self @ [stem md_file @ ''.pdf'']) \<and>
         (From_file_call (temp_html_file self md_file) (pdf_file self md_file) \<in> set t1 \<and>
          (\<not> path_exists fs1 (pdf_file self md_file) \<or>
           st_size X fs1 (pdf_file self md_file) = 0) \<longrightarrow>
            r = Inr False)"
proof (intro conjI impI)
  assume ok: "r = Inr True"
  with assms have r1: "r1 = Inr True"
    by (auto simp: convert_file_cleanup[OF assms(1)] split: option.splits node.splits)
  have same: "lookup fs' (pdf_file self md_file) = lookup fs1 (pdf_file self md_file)"
    using assms(2) pdf_neq_temp[of self md_file self md_file]
    by (auto simp: convert_file_cleanup[OF assms(1)] lookup_delete split: option.splits node.splits)
  from try_success[OF assms(1)[unfolded r1]] lookup_same[OF same]
  show "path_exists fs' (pdf_file self md_file)" and "st_size X fs' (pdf_file self md_file) \<noteq> 0"
    by simp_all
  show "pdf_file self md_file = output_dir self @ [stem md_file @ ''.pdf'']"
    by (simp add: pdf_file_def)
next
  assume a: "From_file_call (temp_html_file self md_file) (pdf_file self md_file) \<in> set t1 \<and>
          (\<not> path_exists fs1 (pdf_file self md_file) \<or>
           st_size X fs1 (pdf_file self md_file) = 0)"
  then obtain h where h: "lookup fs1 (temp_html_file self md_file) = Some (File h)"
    using try_paginated_temp[OF assms(1)] by blast
  have "r1 \<noteq> Inr True"
    using a try_success[of X self md_file fs fs1 t1] assms(1) by auto
  then show "r = Inr False"
    using assms(2) h by (simp add: convert_file_cleanup[OF assms(1)])
qed

theorem convert_file_success_checks_output_witness:
  "convert_file demo_externals the_converter a_md ready_fs =
     (Inr True, ready_fs @ [([''E:'', ''pdf'', ''a.pdf''], File ''%PDF'')],
      [Log_converting ''a.md'', Read_call a_md, Markdown_call ''# a'' extensions,
       Write_call [''temp_html'', ''a.html''],
       From_file_call [''temp_html'', ''a.html''] [''E:'', ''pdf'', ''a.pdf''],
       Log_converted [''E:'', ''pdf'', ''a.pdf'']]) \<and>
   st_size demo_externals (ready_fs @ [([''E:'', ''pdf'', ''a.pdf''], File ''%PDF'')])
     (pdf_file the_converter a_md) \<noteq> 0 \<and>
   \<not> path_exists ready_fs (pdf_file the_converter a_md) \<and>
   fst (convert_file silent_engine the_converter a_md ready_fs) = Inr False"
proof -
  have t1: "convert_file_try demo_externals the_converter a_md ready_fs =
     (Inr True,
      ready_fs @ [([''temp_html'', ''a.html''], File (html_template ''# a'')),
                  ([''E:'', ''pdf'', ''a.pdf''], File ''%PDF'')],
      [Log_converting ''a.md'', Read_call a_md, Markdown_call ''# a'' extensions,
       Write_call [''temp_html'', ''a.html''],
       From_file_call [''temp_html'', ''a.html''] [''E:'', ''pdf'', ''a.pdf''],
       Log_converted [''E:'', ''pdf'', ''a.pdf'']])"
    by (simp add: eval_defs demo_externals_def)
  have c1: "convert_file demo_externals the_converter a_md ready_fs =
     (Inr True, ready_fs @ [([''E:'', ''pdf'', ''a.pdf''], File ''%PDF'')],
      [Log_converting ''a.md'', Read_call a_md, Markdown_call ''# a'' extensions,
       Write_call [''temp_html'', ''a.html''],
       From_file_call [''temp_html'', ''a.html''] [''E:'', ''pdf'', ''a.pdf''],
       Log_converted [''E:'', ''pdf'', ''a.pdf'']])"
    by (simp add: eval_defs demo_externals_def)
  have t2: "convert_file_try silent_engine the_converter a_md ready_fs =
     (Inl PdfEmptyError,
      ready_fs @ [([''temp_html'', ''a.html''], File (html_template ''# a''))],
      [Log_converting ''a.md'', Read_call a_md, Markdown_call ''# a'' extensions,
       Write_call [''temp_html'', ''a.html''],
       From_file_call [''temp_html'', ''a.html''] [''E:'', ''pdf'', ''a.pdf''],
       Log_converted [''E:'', ''pdf'', ''a.pdf'']])"
    by (simp add: eval_defs silent_engine_def)
  obtain r fs' t where c2: "convert_file silent_engine the_converter a_md ready_fs = (r, fs', t)"
    by (metis prod_cases3)
  have p: "pdf_file the_converter a_md = [''E:'', ''pdf'', ''a.pdf'']"
    and q: "temp_html_file the_converter a_md = [''temp_html'', ''a.html'']"
    by (simp_all add: eval_defs)
  have absent: "\<not> path_exists ready_fs (pdf_file the_converter a_md)"
    by (simp add: eval_defs)
  have absent': "\<not> path_exists (ready_fs @ [([''temp_html'', ''a.html''], File (html_template ''# a''))])
      (pdf_file the_converter a_md)"
    by (simp add: eval_defs)
  from convert_file_success_checks_output [OF t1 c1]
  have "st_size demo_externals (ready_fs @ [([''E:'', ''pdf'', ''a.pdf''], File ''%PDF'')])
     (pdf_file the_converter a_md) \<noteq> 0" by blast
  moreover have called: "From_file_call (temp_html_file the_converter a_md) (pdf_file the_converter a_md)
      \<in> set [Log_converting ''a.md'', Read_call a_md, Markdown_call ''# a'' extensions,
       Write_call [''temp_html'', ''a.html''],
       From_file_call [''temp_html'', ''a.html''] [''E:'', ''pdf'', ''a.pdf''],
       Log_converted [''E:'', ''pdf'', ''a.pdf'']]"
    by (simp add: p q)
  from convert_file_success_checks_output [OF t2 c2] absent' called
  have "r = Inr False" by blast
  ultimately show ?thesis using c1 c2 absent by simp
qed

section \<open>The template\<close>



section \<open>When \<open>convert_file\<close> raises\<close>




section \<open>The engine check of the constructor\<close>




section \<open>The temporary directory after a run\<close>

text \<open>
  Once the constructor has returned, \<open>convert_all\<close> removes the temporary directory on
  every path, also when the loop is left by an error.
\<close>

lemma convert_all_removes_temp_dir:
  assumes "init fs0 = (Inr self, fs, t0)"
  shows "\<not> path_exists (fst (snd (convert_all X self fs))) (temp_dir self)"
proof -
  note s = init_success[OF assms]
  obtain r F t where tr: "convert_all_try X the_converter fs = (r, F, t)"
    by (metis prod_cases3)
  from convert_all_after_init(2)[OF tr s(3)] show ?thesis
    by (simp add: s(1) the_converter_paths path_exists_def lookup_rmtree)
qed

text \<open>
  C6. The claim does not hold of the code: when the engine is absent, line 27 has created
  \<open>temp_html\<close> before line 34 raises; \<open>convert_all\<close>, whose \<open>finally\<close> removes
  the directory, is never called. The run below starts without \<open>temp_html\<close> and ends
  with it.
\<close>

theorem main_engine_missing_leaves_temp_dir:
  "main demo_externals no_engine_fs =
     (Inr (),
      no_engine_fs @ [([''E:'', ''pdf''], Dir), ([''temp_html''], Dir)],
      [Print_engine_missing, Print_download_url ''https://wkhtmltopdf.org/downloads.html'',
       Print_top_error (FileNotFoundError ''wkhtmltopdf not found''), Input_prompt]) \<and>
   \<not> path_exists no_engine_fs (temp_dir the_converter) \<and>
   is_dir (no_engine_fs @ [([''E:'', ''pdf''], Dir), ([''temp_html''], Dir)]) (temp_dir the_converter)"
  by (simp add: main_def init_def Let_def the_converter_def no_engine_fs_def mkdir_parents.simps
      mkdir_def is_dir_def path_exists_def lookup_def parent_def download_url_def)

section \<open>A missing input directory\<close>



section \<open>The batch processes every file\<close>




section \<open>Errors of one file\<close>

text \<open>
  What raises in the \<open>try\<close> block of \<open>convert_file\<close>: an input that cannot be read or
  decoded, an error of Markdown, an intermediate file that cannot be written, an error of
  the engine, and an output that is missing or empty after the engine returned.
\<close>

lemma try_raises:
  "read_text X m fs = Inl e \<Longrightarrow> fst (convert_file_try X self m fs) = Inl e"
  "read_text X m fs = Inr c \<Longrightarrow> markdown X c extensions ''html5'' = Inl e \<Longrightarrow>
     fst (convert_file_try X self m fs) = Inl e"
  "fst (convert_md_to_html X m fs) = Inr h \<Longrightarrow>
     open_write (temp_html_file self m) h fs = Inl e \<Longrightarrow>
     fst (convert_file_try X self m fs) = Inl e"
  "fst (convert_md_to_html X m fs) = Inr h \<Longrightarrow>
     open_write (temp_html_file self m) h fs = Inr fs2 \<Longrightarrow>
     fst (from_file X (temp_html_file self m) (pdf_file self m) (options self) (config self) fs2)
       = Some e \<Longrightarrow>
     fst (convert_file_try X self m fs) = Inl e"
  "fst (convert_md_to_html X m fs) = Inr h \<Longrightarrow>
     open_write (temp_html_file self m) h fs = Inr fs2 \<Longrightarrow>
     from_file X (temp_html_file self m) (pdf_file self m) (options self) (config self) fs2
       = (None, w) \<Longrightarrow>
     \<not> path_exists (engine_effect (pdf_file self m) w fs2) (pdf_file self m) \<or>
     st_size X (engine_effect (pdf_file self m) w fs2) (pdf_file self m) = 0 \<Longrightarrow>
     fst (convert_file_try X self m fs) = Inl PdfEmptyError"
  by (auto simp: convert_file_try_def convert_md_to_html_def paginate_def Let_def
      split: prod.splits sum.splits option.splits if_splits)




section \<open>Running the batch twice\<close>




end
